theory Spec2Isabelle
  imports Complex_Main
begin

section \<open>The control notebook \<^verbatim>\<open>notebooks/n09_control.ipynb\<close>\<close>

text \<open>
  The notebook is a sequence of code cells run in one Python session. The cells call
  SymPy, NumPy and SciPy and combine the results with array algebra. The model keeps
  that shape: array algebra (\<^verbatim>\<open>zeros\<close>, \<^verbatim>\<open>eye\<close>, \<^verbatim>\<open>.T\<close>, \<^verbatim>\<open>dot\<close>), the
  builtins \<^verbatim>\<open>zip\<close> and \<^verbatim>\<open>dict\<close>, attribute assignment and the function
  \<^verbatim>\<open>controller\<close> are written out; the calls whose code lives in the libraries
  (\<^verbatim>\<open>to_linearizer\<close>, \<^verbatim>\<open>linearize\<close>, \<^verbatim>\<open>matrix2numpy\<close>, \<^verbatim>\<open>controllable\<close>,
  \<^verbatim>\<open>solve_continuous_are\<close>, \<^verbatim>\<open>inv\<close>) are parameters, each returning either the
  exception it raised or its value. Python floats are idealised as real numbers. Cells
  that only display a value (a bare expression, \<^verbatim>\<open>help\<close>), import names or load a
  solution file into a cell assign no global and are not part of the model.
\<close>

subsection \<open>Exceptions and values\<close>

datatype error = TypeError | ValueError | LinAlgError | LibraryError string

datatype pyval = PyNone | PyFloat real | PyArray "real list"

type_synonym symbol = string

definition and_then :: "error + 'a \<Rightarrow> ('a \<Rightarrow> error + 'b) \<Rightarrow> error + 'b" where
  "and_then m f = (case m of Inl e \<Rightarrow> Inl e | Inr x \<Rightarrow> f x)"

subsection \<open>Two-dimensional arrays\<close>

text \<open>
  A NumPy array of dimension two carries its shape and its entries, row by row. An array
  built by NumPy is rectangular: \<open>wf_array\<close> says so.
\<close>

record ndarray =
  nrows :: nat
  ncols :: nat
  rows :: "real list list"

definition wf_array :: "ndarray \<Rightarrow> bool" where
  "wf_array M \<longleftrightarrow>
     length (rows M) = nrows M \<and> list_all (\<lambda>r. length r = ncols M) (rows M)"

definition entry :: "ndarray \<Rightarrow> nat \<Rightarrow> nat \<Rightarrow> real" where
  "entry M i j = rows M ! i ! j"

text \<open>\<^verbatim>\<open>zeros(n)\<close>: the one-dimensional array of \<open>n\<close> zeros.\<close>

definition zeros :: "nat \<Rightarrow> real list" where
  "zeros n = replicate n 0"

text \<open>\<^verbatim>\<open>eye(n)\<close>: the \<open>n\<close> by \<open>n\<close> identity.\<close>

definition eye :: "nat \<Rightarrow> ndarray" where
  "eye n = \<lparr>nrows = n, ncols = n,
            rows = map (\<lambda>i. map (\<lambda>j. if i = j then 1 else 0) [0..<n]) [0..<n]\<rparr>"

text \<open>\<^verbatim>\<open>M.T\<close>: the transpose.\<close>

definition T :: "ndarray \<Rightarrow> ndarray" where
  "T M = \<lparr>nrows = ncols M, ncols = nrows M,
          rows = map (\<lambda>j. map (\<lambda>r. r ! j) (rows M)) [0..<ncols M]\<rparr>"

text \<open>
  \<^verbatim>\<open>dot(M, N)\<close> on two-dimensional arrays: the matrix product, and \<^verbatim>\<open>ValueError\<close>
  when the shapes are not aligned.
\<close>

definition dot :: "ndarray \<Rightarrow> ndarray \<Rightarrow> error + ndarray" where
  "dot M N =
     (if ncols M = nrows N
      then Inr \<lparr>nrows = nrows M, ncols = ncols N,
                rows = map (\<lambda>r. map (\<lambda>j. \<Sum>k\<leftarrow>[0..<ncols M]. r ! k * entry N k j)
                                     [0..<ncols N]) (rows M)\<rparr>
      else Inl ValueError)"

subsection \<open>The exercise cell defining \<^verbatim>\<open>controller\<close>\<close>

text \<open>
  \<^verbatim>\<open>
  def controller():
      """Returns the output of the controller, i.e. the joint torques, given the current state."""
      return
  \<close>
  The function declares no parameter, so a call with arguments raises \<^verbatim>\<open>TypeError\<close>
  before the body runs; the bare \<^verbatim>\<open>return\<close> gives \<^verbatim>\<open>None\<close>.
\<close>

definition controller :: "pyval list \<Rightarrow> error + pyval" where
  "controller args = (if args = [] then Inr PyNone else Inl TypeError)"

text \<open>
  The control law as the notebook's prose states it, \<open>u(t) = -K x(t)\<close>, for a gain
  array \<open>K\<close> and a state vector \<open>x\<close>. It follows the prose, not the code,
  and is kept apart from \<open>controller\<close> so that the two can be compared.
\<close>

definition lqr_law :: "ndarray \<Rightarrow> real list \<Rightarrow> real list" where
  "lqr_law Km x = map (\<lambda>row. - (\<Sum>k\<leftarrow>[0..<length x]. row ! k * x ! k)) (rows Km)"

subsection \<open>Names the session already holds, and the library\<close>

text \<open>
  \<^verbatim>\<open>from solution.visualization import *\<close> brings in the results of the earlier
  notebooks: the lists \<^verbatim>\<open>coordinates\<close>, \<^verbatim>\<open>speeds\<close> and \<^verbatim>\<open>specified\<close> of symbols and
  the \<^verbatim>\<open>KanesMethod\<close> object \<^verbatim>\<open>kane\<close>. \<^verbatim>\<open>parameter_dict\<close> is defined by an exercise
  solution that the notebook loads from a file. All of them are inputs of the model.
\<close>

record 'k env =
  coordinates :: "symbol list"
  speeds :: "symbol list"
  specified :: "symbol list"
  parameter_dict :: "symbol \<rightharpoonup> real"
  kane :: 'k

text \<open>
  A \<^verbatim>\<open>Linearizer\<close> object: its attribute \<^verbatim>\<open>r\<close>, the ordered inputs, and everything
  else it holds.
\<close>

record 'c linearizer =
  r :: "symbol list"
  core :: 'c

text \<open>
  The library calls of the notebook. \<open>'m\<close> is the type of SymPy matrices. Each call
  returns \<open>Inl\<close> of the exception it raised or \<open>Inr\<close> of its value.
\<close>

record ('k, 'c, 'm) library =
  to_linearizer :: "'k \<Rightarrow> error + 'c linearizer"
  linearize :: "'c linearizer \<Rightarrow> (symbol \<rightharpoonup> real) list \<Rightarrow> bool \<Rightarrow> error + 'm \<times> 'm"
  matrix2numpy :: "'m \<Rightarrow> error + ndarray"
  controllable :: "ndarray \<Rightarrow> ndarray \<Rightarrow> error + bool"
  solve_continuous_are :: "ndarray \<Rightarrow> ndarray \<Rightarrow> ndarray \<Rightarrow> ndarray \<Rightarrow> error + ndarray"
  linalg_inv :: "ndarray \<Rightarrow> error + ndarray"

subsection \<open>The cells\<close>

text \<open>\<^verbatim>\<open>dict(pairs)\<close>: a later pair with the same key replaces an earlier one.\<close>

definition py_dict :: "('a \<times> 'b) list \<Rightarrow> ('a \<rightharpoonup> 'b)" where
  "py_dict ps = foldl (\<lambda>m (k, v). m(k \<mapsto> v)) Map.empty ps"

text \<open>\<^verbatim>\<open>equilibrium_point = zeros(len(coordinates + speeds))\<close>\<close>

definition equilibrium_point :: "('k, 'z) env_scheme \<Rightarrow> real list" where
  "equilibrium_point e = zeros (length (coordinates e @ speeds e))"

text \<open>\<^verbatim>\<open>equilibrium_dict = dict(zip(coordinates + speeds, equilibrium_point))\<close>\<close>

definition equilibrium_dict :: "('k, 'z) env_scheme \<Rightarrow> (symbol \<rightharpoonup> real)" where
  "equilibrium_dict e = py_dict (zip (coordinates e @ speeds e) (equilibrium_point e))"

text \<open>
  \<^verbatim>\<open>linearizer = kane.to_linearizer()\<close> and then \<^verbatim>\<open>linearizer.r = Matrix(specified)\<close>:
  the attribute assignment replaces the field \<open>r\<close> of the object.
\<close>

definition cell_linearizer ::
  "('k, 'c, 'm) library \<Rightarrow> 'k env \<Rightarrow> error + 'c linearizer" where
  "cell_linearizer lib e =
     and_then (to_linearizer lib (kane e)) (\<lambda>lin. Inr (lin\<lparr>r := specified e\<rparr>))"

text \<open>
  \<^verbatim>\<open>A, B = linearizer.linearize(op_point=[equilibrium_dict, parameter_dict], A_and_B=True)\<close>
\<close>

definition cell_linearize ::
  "('k, 'c, 'm) library \<Rightarrow> 'k env \<Rightarrow> 'c linearizer \<Rightarrow> error + 'm \<times> 'm" where
  "cell_linearize lib e lin = linearize lib lin [equilibrium_dict e, parameter_dict e] True"

text \<open>
  \<^verbatim>\<open>A = matrix2numpy(A, dtype=float)\<close> and \<^verbatim>\<open>B = matrix2numpy(B, dtype=float)\<close>
\<close>

definition cell_numpy ::
  "('k, 'c, 'm) library \<Rightarrow> 'm \<Rightarrow> 'm \<Rightarrow> error + ndarray \<times> ndarray" where
  "cell_numpy lib As Bs =
     and_then (matrix2numpy lib As) (\<lambda>Am.
     and_then (matrix2numpy lib Bs) (\<lambda>Bm. Inr (Am, Bm)))"

text \<open>\<^verbatim>\<open>Q = eye(6)\<close> and \<^verbatim>\<open>R = eye(3)\<close>\<close>

definition Q :: ndarray where
  "Q = eye 6"

definition R :: ndarray where
  "R = eye 3"

text \<open>
  \<^verbatim>\<open>
  S = solve_continuous_are(A, B, Q, R)
  K = dot(dot(inv(R), B.T),  S)
  \<close>
  as a function of the four globals the cell reads; it returns \<open>(S, K)\<close>.
\<close>

definition cell_gain ::
  "('k, 'c, 'm) library \<Rightarrow> ndarray \<Rightarrow> ndarray \<Rightarrow> ndarray \<Rightarrow> ndarray
     \<Rightarrow> error + ndarray \<times> ndarray" where
  "cell_gain lib Am Bm Qm Rm =
     and_then (solve_continuous_are lib Am Bm Qm Rm) (\<lambda>Sm.
     and_then (linalg_inv lib Rm) (\<lambda>Ri.
     and_then (dot Ri (T Bm)) (\<lambda>M.
     and_then (dot M Sm) (\<lambda>Km. Inr (Sm, Km)))))"

text \<open>The globals the session holds once the cells have run.\<close>

record 'c session =
  s_equilibrium_point :: "real list"
  s_equilibrium_dict :: "symbol \<rightharpoonup> real"
  s_linearizer :: "'c linearizer"
  s_A :: ndarray
  s_B :: ndarray
  s_controllable :: bool
  s_S :: ndarray
  s_K :: ndarray

text \<open>
  The code cells from \<^verbatim>\<open>equilibrium_point\<close> to \<^verbatim>\<open>K\<close>, run in the notebook's order.
  An exception ends the run, as it does when all cells are run in one go.
\<close>

definition notebook :: "('k, 'c, 'm) library \<Rightarrow> 'k env \<Rightarrow> error + 'c session" where
  "notebook lib e =
     and_then (cell_linearizer lib e) (\<lambda>lin.
     and_then (cell_linearize lib e lin) (\<lambda>(As, Bs).
     and_then (cell_numpy lib As Bs) (\<lambda>(Am, Bm).
     and_then (controllable lib Am Bm) (\<lambda>c.
     and_then (cell_gain lib Am Bm Q R) (\<lambda>(Sm, Km).
     Inr \<lparr>s_equilibrium_point = equilibrium_point e,
          s_equilibrium_dict = equilibrium_dict e,
          s_linearizer = lin,
          s_A = Am, s_B = Bm, s_controllable = c, s_S = Sm, s_K = Km\<rparr>)))))"

subsection \<open>What the libraries promise\<close>

text \<open>
  \<^verbatim>\<open>numpy.linalg.inv(a)\<close> is documented to return the array \<^verbatim>\<open>ainv\<close> with
  \<^verbatim>\<open>dot(a, ainv) = dot(ainv, a) = eye(a.shape[0])\<close> and to raise when there is none.
  \<open>inv_contract f M\<close> says that the call \<open>f M\<close> keeps this promise (in exact
  arithmetic).
\<close>

definition inv_contract :: "(ndarray \<Rightarrow> error + ndarray) \<Rightarrow> ndarray \<Rightarrow> bool" where
  "inv_contract f M \<longleftrightarrow>
     (case f M of
        Inr Mi \<Rightarrow> wf_array Mi \<and> dot M Mi = Inr (eye (nrows M)) \<and> dot Mi M = Inr (eye (nrows M))
      | Inl x \<Rightarrow> \<not> (\<exists>Mi. wf_array Mi \<and> dot M Mi = Inr (eye (nrows M))
                        \<and> dot Mi M = Inr (eye (nrows M))))"

text \<open>
  The notebook's prose says of the \<^verbatim>\<open>Linearizer\<close> that it finds the inputs \<^verbatim>\<open>r\<close> and
  orders them, and the cell that sets \<^verbatim>\<open>linearizer.r\<close> relies on the input matrix
  following that order. \<open>columns_follow_r lib col\<close> says so: column \<open>j\<close> of the numeric
  \<open>B\<close> is \<open>col\<close> of the \<open>j\<close>-th entry of \<open>r\<close>, where \<open>col\<close> may look at the rest of
  the object and at the operating point but not at \<open>r\<close>.
\<close>

definition columns_follow_r ::
  "('k, 'c, 'm) library \<Rightarrow> ('c \<Rightarrow> (symbol \<rightharpoonup> real) list \<Rightarrow> symbol \<Rightarrow> real list) \<Rightarrow> bool" where
  "columns_follow_r lib col \<longleftrightarrow>
     (\<forall>lin op As Bs Bm.
        linearize lib lin op True = Inr (As, Bs) \<and> matrix2numpy lib Bs = Inr Bm \<longrightarrow>
        ncols Bm = length (r lin) \<and>
        (\<forall>j<length (r lin). \<forall>i<nrows Bm. entry Bm i j = col (core lin) op (r lin ! j) ! i))"

subsection \<open>A sample session\<close>

text \<open>
  Concrete inputs on which the theorems below are instantiated: the three-link model's
  symbols, a library whose \<^verbatim>\<open>to_linearizer\<close> orders the inputs alphabetically and whose
  \<^verbatim>\<open>linearize\<close> builds the input matrix column by column in the order of \<^verbatim>\<open>r\<close>, and
  fixed arrays for the other calls.
\<close>

definition demo_env :: "unit env" where
  "demo_env = \<lparr>coordinates = [''theta1'', ''theta2'', ''theta3''],
               speeds = [''omega1'', ''omega2'', ''omega3''],
               specified = [''T_a'', ''T_k'', ''T_h''],
               parameter_dict = py_dict [(''g'', 981 / 100)],
               kane = ()\<rparr>"

definition demo_A :: ndarray where
  "demo_A = \<lparr>nrows = 6, ncols = 6, rows =
     [[0, 0, 0, 1, 0, 0],
      [0, 0, 0, 0, 1, 0],
      [0, 0, 0, 0, 0, 1],
      [3, -1, 0, 0, 0, 0],
      [-1, 2, -1, 0, 0, 0],
      [0, -1, 1, 0, 0, 0]]\<rparr>"

definition demo_column :: "symbol \<Rightarrow> real list" where
  "demo_column u =
     (if u = ''T_a'' then [0, 0, 0, 1, 0, 0]
      else if u = ''T_k'' then [0, 0, 0, 0, 2, 0]
      else [0, 0, 0, 0, 0, 1 / 2])"

definition demo_S :: ndarray where
  "demo_S = \<lparr>nrows = 6, ncols = 6, rows =
     [[9, 0, 0, 2, 0, 0],
      [0, 8, 0, 0, 3, 0],
      [0, 0, 7, 0, 0, 1],
      [2, 0, 0, 5, 0, 0],
      [0, 3, 0, 0, 4, 0],
      [0, 0, 1, 0, 0, 6]]\<rparr>"

definition demo_lib :: "(unit, unit, ndarray) library" where
  "demo_lib =
     \<lparr>to_linearizer = (\<lambda>k. Inr \<lparr>r = [''T_a'', ''T_h'', ''T_k''], core = ()\<rparr>),
      linearize = (\<lambda>lin op ab.
         Inr (demo_A,
              \<lparr>nrows = 6, ncols = length (r lin),
               rows = map (\<lambda>i. map (\<lambda>u. demo_column u ! i) (r lin)) [0..<6]\<rparr>)),
      matrix2numpy = Inr,
      controllable = (\<lambda>Am Bm. Inr True),
      solve_continuous_are = (\<lambda>Am Bm Qm Rm. Inr demo_S),
      linalg_inv = (\<lambda>M. if M = eye (nrows M) then Inr M else Inl LinAlgError)\<rparr>"

definition demo_B :: ndarray where
  "demo_B = \<lparr>nrows = 6, ncols = 3, rows =
     [[0, 0, 0],
      [0, 0, 0],
      [0, 0, 0],
      [1, 0, 0],
      [0, 2, 0],
      [0, 0, 1 / 2]]\<rparr>"

definition demo_K :: ndarray where
  "demo_K = \<lparr>nrows = 3, ncols = 6, rows =
     [[2, 0, 0, 5, 0, 0],
      [0, 6, 0, 0, 8, 0],
      [0, 0, 1 / 2, 0, 0, 3]]\<rparr>"

definition demo_session :: "unit session" where
  "demo_session =
     \<lparr>s_equilibrium_point = [0, 0, 0, 0, 0, 0],
      s_equilibrium_dict = equilibrium_dict demo_env,
      s_linearizer = \<lparr>r = [''T_a'', ''T_k'', ''T_h''], core = ()\<rparr>,
      s_A = demo_A, s_B = demo_B, s_controllable = True, s_S = demo_S, s_K = demo_K\<rparr>"

text \<open>The sample library with an inversion that raises.\<close>

definition failing_lib :: "(unit, unit, ndarray) library" where
  "failing_lib = demo_lib\<lparr>linalg_inv := (\<lambda>M. Inl LinAlgError)\<rparr>"

text \<open>
  Sample arrays for the gain cell with a weighting array \<open>R\<close> that is not the identity:
  \<open>gain_Ri\<close> is the inverse of \<open>gain_R\<close>, and \<open>gain_K\<close> is \<open>gain_Ri\<close> times the
  transpose of \<open>gain_B\<close> times \<open>demo_S\<close>, worked out by hand.
\<close>

definition gain_R :: ndarray where
  "gain_R = \<lparr>nrows = 3, ncols = 3, rows =
     [[1, 1, 0],
      [0, 1, 0],
      [0, 0, 2]]\<rparr>"

definition gain_Ri :: ndarray where
  "gain_Ri = \<lparr>nrows = 3, ncols = 3, rows =
     [[1, -1, 0],
      [0, 1, 0],
      [0, 0, 1 / 2]]\<rparr>"

definition gain_B :: ndarray where
  "gain_B = \<lparr>nrows = 6, ncols = 3, rows =
     [[0, 0, 0],
      [0, 0, 0],
      [0, 0, 0],
      [1, 0, 3],
      [0, 2, 0],
      [4, 0, 1 / 2]]\<rparr>"

definition gain_K :: ndarray where
  "gain_K = \<lparr>nrows = 3, ncols = 6, rows =
     [[2, -6, 4, 5, -8, 24],
      [0, 6, 0, 0, 8, 0],
      [3, 0, 1 / 4, 15 / 2, 0, 3 / 2]]\<rparr>"

definition gain_lib :: "(unit, unit, ndarray) library" where
  "gain_lib =
     demo_lib\<lparr>linalg_inv := (\<lambda>M. if M = gain_R then Inr gain_Ri else Inl LinAlgError)\<rparr>"

section \<open>Auxiliary facts\<close>

lemma array_eqI:
  assumes "wf_array M" "wf_array N" "nrows M = nrows N" "ncols M = ncols N"
    and "\<And>i j. i < nrows M \<Longrightarrow> j < ncols M \<Longrightarrow> entry M i j = entry N i j"
  shows "M = N"
proof -
  have "rows M = rows N"
  proof (rule nth_equalityI)
    show "length (rows M) = length (rows N)"
      using assms by (simp add: wf_array_def)
  next
    fix i assume i: "i < length (rows M)"
    then have iM: "i < nrows M" and iN: "i < length (rows N)"
      using assms by (simp_all add: wf_array_def)
    have lM: "length (rows M ! i) = ncols M"
      using assms(1) i by (simp add: wf_array_def list_all_length)
    have lN: "length (rows N ! i) = ncols M"
      using assms(2,4) iN by (simp add: wf_array_def list_all_length)
    show "rows M ! i = rows N ! i"
    proof (rule nth_equalityI)
      show "length (rows M ! i) = length (rows N ! i)" using lM lN by simp
    next
      fix j assume "j < length (rows M ! i)"
      then have "j < ncols M" using lM by simp
      then show "rows M ! i ! j = rows N ! i ! j"
        using assms(5)[OF iM] by (simp add: entry_def)
    qed
  qed
  then show ?thesis using assms(3,4) by simp
qed

lemma wf_eye: "wf_array (eye n)"
  by (simp add: wf_array_def eye_def list_all_length)

lemma entry_eye: "i < n \<Longrightarrow> j < n \<Longrightarrow> entry (eye n) i j = (if i = j then 1 else 0)"
  by (simp add: entry_def eye_def)

lemma wf_T: "wf_array M \<Longrightarrow> wf_array (T M)"
  by (simp add: wf_array_def T_def list_all_length)

lemma entry_T:
  assumes "wf_array M" "i < ncols M" "j < nrows M"
  shows "entry (T M) i j = entry M j i"
proof -
  have "j < length (rows M)" using assms by (simp add: wf_array_def)
  then show ?thesis using assms(2) by (simp add: entry_def T_def)
qed

lemma dot_shape:
  "dot M N = Inr P \<Longrightarrow> ncols M = nrows N \<and> nrows P = nrows M \<and> ncols P = ncols N"
  by (auto simp: dot_def split: if_splits)

lemma wf_dot: "wf_array M \<Longrightarrow> dot M N = Inr P \<Longrightarrow> wf_array P"
  by (auto simp: dot_def wf_array_def list_all_length split: if_splits)

lemma entry_dot:
  "dot M N = Inr P \<Longrightarrow> wf_array M \<Longrightarrow> i < nrows M \<Longrightarrow> j < ncols N \<Longrightarrow>
   entry P i j = (\<Sum>k<ncols M. entry M i k * entry N k j)"
  by (auto simp: dot_def wf_array_def entry_def interv_sum_list_conv_sum_set_nat atLeast0LessThan
      split: if_splits)

lemma dot_eye_left:
  assumes "wf_array M" "nrows M = n"
  shows "dot (eye n) M = Inr M"
proof -
  obtain P where P: "dot (eye n) M = Inr P"
    using assms by (simp add: dot_def eye_def)
  have "P = M"
  proof (rule array_eqI)
    show "wf_array P" using wf_dot[OF wf_eye P] .
    show "wf_array M" by fact
    show "nrows P = nrows M" "ncols P = ncols M"
      using dot_shape[OF P] assms by (simp_all add: eye_def)
  next
    fix i j assume "i < nrows P" "j < ncols P"
    then have i: "i < n" and j: "j < ncols M"
      using dot_shape[OF P] by (simp_all add: eye_def)
    have "entry P i j = (\<Sum>k<n. entry (eye n) i k * entry M k j)"
      using entry_dot[OF P wf_eye _ j] i by (simp add: eye_def)
    also have "\<dots> = (\<Sum>k<n. if k = i then entry M k j else 0)"
      by (rule sum.cong) (auto simp: entry_eye i)
    also have "\<dots> = entry M i j"
      using i by simp
    finally show "entry P i j = entry M i j" .
  qed
  then show ?thesis using P by simp
qed

lemma dot_eye_right:
  assumes "wf_array M" "ncols M = n"
  shows "dot M (eye n) = Inr M"
proof -
  obtain P where P: "dot M (eye n) = Inr P"
    using assms by (simp add: dot_def eye_def)
  have "P = M"
  proof (rule array_eqI)
    show "wf_array P" using wf_dot[OF assms(1) P] .
    show "wf_array M" by fact
    show "nrows P = nrows M" "ncols P = ncols M"
      using dot_shape[OF P] assms by (simp_all add: eye_def)
  next
    fix i j assume "i < nrows P" "j < ncols P"
    then have i: "i < nrows M" and j: "j < n"
      using dot_shape[OF P] by (simp_all add: eye_def)
    have "entry P i j = (\<Sum>k<n. entry M i k * entry (eye n) k j)"
      using entry_dot[OF P assms(1) i] j assms(2) by (simp add: eye_def)
    also have "\<dots> = (\<Sum>k<n. if k = j then entry M i k else 0)"
      by (rule sum.cong) (auto simp: entry_eye j)
    also have "\<dots> = entry M i j"
      using j by simp
    finally show "entry P i j = entry M i j" .
  qed
  then show ?thesis using P by simp
qed

lemma dot_assoc:
  assumes "wf_array L" "wf_array M" "wf_array N"
    and LM: "dot L M = Inr LM" and MN: "dot M N = Inr MN"
  shows "dot LM N = dot L MN"
proof -
  have sh: "ncols L = nrows M" "ncols M = nrows N"
    "nrows LM = nrows L" "ncols LM = ncols M" "nrows MN = nrows M" "ncols MN = ncols N"
    using dot_shape[OF LM] dot_shape[OF MN] by simp_all
  obtain P where P: "dot LM N = Inr P" using sh by (simp add: dot_def)
  obtain P' where P': "dot L MN = Inr P'" using sh by (simp add: dot_def)
  have wLM: "wf_array LM" using wf_dot[OF assms(1) LM] .
  have wMN: "wf_array MN" using wf_dot[OF assms(2) MN] .
  have "P = P'"
  proof (rule array_eqI)
    show "wf_array P" using wf_dot[OF wLM P] .
    show "wf_array P'" using wf_dot[OF assms(1) P'] .
    show "nrows P = nrows P'" "ncols P = ncols P'"
      using dot_shape[OF P] dot_shape[OF P'] sh by simp_all
  next
    fix i j assume "i < nrows P" "j < ncols P"
    then have i: "i < nrows L" and j: "j < ncols N"
      using dot_shape[OF P] sh by simp_all
    have "entry P i j = (\<Sum>k<ncols M. entry LM i k * entry N k j)"
      using entry_dot[OF P wLM _ j] i sh by simp
    also have "\<dots> = (\<Sum>k<ncols M. (\<Sum>l<ncols L. entry L i l * entry M l k) * entry N k j)"
      by (rule sum.cong) (simp_all add: entry_dot[OF LM assms(1) i])
    also have "\<dots> = (\<Sum>k<ncols M. \<Sum>l<ncols L. entry L i l * (entry M l k * entry N k j))"
      by (simp add: sum_distrib_right mult.assoc)
    also have "\<dots> = (\<Sum>l<ncols L. \<Sum>k<ncols M. entry L i l * (entry M l k * entry N k j))"
      by (rule sum.swap)
    also have "\<dots> = (\<Sum>l<ncols L. entry L i l * (\<Sum>k<ncols M. entry M l k * entry N k j))"
      by (simp add: sum_distrib_left)
    also have "\<dots> = (\<Sum>l<ncols L. entry L i l * entry MN l j)"
      by (rule sum.cong) (simp_all add: entry_dot[OF MN assms(2) _ j] sh)
    also have "\<dots> = entry P' i j"
      using entry_dot[OF P' assms(1) i] j sh by simp
    finally show "entry P i j = entry P' i j" .
  qed
  then show ?thesis using P P' by simp
qed

lemma and_then_Inr [simp]: "and_then (Inr x) f = f x"
  by (simp add: and_then_def)

lemma and_then_Inl [simp]: "and_then (Inl x) f = Inl x"
  by (simp add: and_then_def)

lemma shape_eye [simp]: "nrows (eye n) = n" "ncols (eye n) = n"
  by (simp_all add: eye_def)

lemma shape_T [simp]: "nrows (T M) = ncols M" "ncols (T M) = nrows M"
  by (simp_all add: T_def)

lemma inv_eye:
  assumes "inv_contract f (eye n)"
  shows "f (eye n) = Inr (eye n)"
proof (cases "f (eye n)")
  case (Inl x)
  have "wf_array (eye n) \<and> dot (eye n) (eye n) = Inr (eye (nrows (eye n)))"
    using dot_eye_left[OF wf_eye, of n n] by (simp add: wf_eye)
  then have "\<exists>Mi. wf_array Mi \<and> dot (eye n) Mi = Inr (eye (nrows (eye n)))
                \<and> dot Mi (eye n) = Inr (eye (nrows (eye n)))" by blast
  moreover have "\<not> (\<exists>Mi. wf_array Mi \<and> dot (eye n) Mi = Inr (eye (nrows (eye n)))
                \<and> dot Mi (eye n) = Inr (eye (nrows (eye n))))"
    using assms Inl by (simp add: inv_contract_def)
  ultimately show ?thesis by blast
next
  case (Inr Mi)
  then have w: "wf_array Mi" and d: "dot Mi (eye n) = Inr (eye n)"
    using assms by (simp_all add: inv_contract_def)
  have "ncols Mi = n" using dot_shape[OF d] by simp
  then have "dot Mi (eye n) = Inr Mi" using dot_eye_right[OF w] by simp
  then show ?thesis using d Inr by simp
qed


lemma foldl_upd:
  "foldl (\<lambda>m (k, v). m(k \<mapsto> v)) m0 ps = m0 ++ map_of (rev ps)"
proof (induction ps arbitrary: m0)
  case Nil
  then show ?case by simp
next
  case (Cons p ps)
  obtain k v where p: "p = (k, v)" by (cases p)
  have "foldl (\<lambda>m (k, v). m(k \<mapsto> v)) m0 (p # ps)
          = foldl (\<lambda>m (k, v). m(k \<mapsto> v)) (m0(k \<mapsto> v)) ps"
    unfolding p by (simp only: foldl_Cons case_prod_conv)
  also have "\<dots> = m0(k \<mapsto> v) ++ map_of (rev ps)"
    by (rule Cons.IH)
  also have "\<dots> = m0 ++ map_of (rev (p # ps))"
    unfolding p by (simp only: rev.simps map_of_append map_of.simps fst_conv snd_conv
        map_add_assoc map_add_empty map_add_upd)
  finally show ?case .
qed

lemma py_dict_map_of: "py_dict ps = map_of (rev ps)"
  by (simp add: py_dict_def foldl_upd)

lemma dom_equilibrium_dict:
  "dom (equilibrium_dict e) = set (coordinates e) \<union> set (speeds e)"
proof -
  let ?ks = "coordinates e @ speeds e"
  have "fst ` set (zip ?ks (replicate (length ?ks) (0::real))) = set ?ks"
    by (metis length_replicate map_fst_zip set_map)
  then show ?thesis
    by (simp add: equilibrium_dict_def equilibrium_point_def zeros_def py_dict_map_of
        dom_map_of_conv_image_fst del: zip_append)
qed

lemma equilibrium_dict_zero:
  assumes "q \<in> set (coordinates e) \<union> set (speeds e)"
  shows "equilibrium_dict e q = Some 0"
proof -
  have "q \<in> dom (equilibrium_dict e)"
    using assms dom_equilibrium_dict by blast
  then obtain v where v: "equilibrium_dict e q = Some v" by blast
  then have "(q, v) \<in> set (zip (coordinates e @ speeds e) (equilibrium_point e))"
    using map_of_SomeD[of "rev (zip (coordinates e @ speeds e) (equilibrium_point e))" q v]
    by (simp add: equilibrium_dict_def py_dict_map_of)
  then have "v \<in> set (equilibrium_point e)"
    by (rule set_zip_rightD)
  then have "v = 0"
    by (simp add: equilibrium_point_def zeros_def split: if_splits)
  then show ?thesis using v by simp
qed

lemma and_then_eq_Inr: "and_then m f = Inr y \<longleftrightarrow> (\<exists>v. m = Inr v \<and> f v = Inr y)"
  by (cases m) simp_all

lemma and_then_eq_Inl:
  "and_then m f = Inl x \<longleftrightarrow> m = Inl x \<or> (\<exists>v. m = Inr v \<and> f v = Inl x)"
  by (cases m) simp_all

lemma notebook_Inr:
  "notebook lib e = Inr s \<longleftrightarrow>
     (\<exists>lin0 As Bs Am Bm c Sm Ri M Km.
        to_linearizer lib (kane e) = Inr lin0 \<and>
        linearize lib (lin0\<lparr>r := specified e\<rparr>) [equilibrium_dict e, parameter_dict e] True
          = Inr (As, Bs) \<and>
        matrix2numpy lib As = Inr Am \<and> matrix2numpy lib Bs = Inr Bm \<and>
        controllable lib Am Bm = Inr c \<and>
        solve_continuous_are lib Am Bm Q R = Inr Sm \<and>
        linalg_inv lib R = Inr Ri \<and> dot Ri (T Bm) = Inr M \<and> dot M Sm = Inr Km \<and>
        s = \<lparr>s_equilibrium_point = equilibrium_point e,
             s_equilibrium_dict = equilibrium_dict e,
             s_linearizer = lin0\<lparr>r := specified e\<rparr>,
             s_A = Am, s_B = Bm, s_controllable = c, s_S = Sm, s_K = Km\<rparr>)"
  unfolding notebook_def cell_linearizer_def cell_linearize_def cell_numpy_def cell_gain_def
  by (auto simp: and_then_eq_Inr)

lemma demo_inv_R: "linalg_inv demo_lib R = Inr R"
  by (simp add: demo_lib_def R_def)

lemma demo_gain: "cell_gain demo_lib demo_A demo_B Q R = Inr (demo_S, demo_K)"
  by (simp add: cell_gain_def demo_lib_def R_def eye_def T_def dot_def entry_def
      demo_B_def demo_S_def demo_K_def upt_rec)

lemma demo_run: "notebook demo_lib demo_env = Inr demo_session"
proof -
  have l: "cell_linearizer demo_lib demo_env = Inr \<lparr>r = [''T_a'', ''T_k'', ''T_h''], core = ()\<rparr>"
    by (simp add: cell_linearizer_def demo_lib_def demo_env_def)
  have ab: "cell_linearize demo_lib demo_env \<lparr>r = [''T_a'', ''T_k'', ''T_h''], core = ()\<rparr>
              = Inr (demo_A, demo_B)"
    by (simp add: cell_linearize_def demo_lib_def demo_B_def demo_column_def upt_rec)
  have n: "cell_numpy demo_lib demo_A demo_B = Inr (demo_A, demo_B)"
    by (simp add: cell_numpy_def demo_lib_def)
  have c: "controllable demo_lib demo_A demo_B = Inr True"
    by (simp add: demo_lib_def)
  have p: "equilibrium_point demo_env = [0, 0, 0, 0, 0, 0]"
    by (simp add: equilibrium_point_def zeros_def demo_env_def eval_nat_numeral)
  show ?thesis
    by (simp add: notebook_def l ab n c demo_gain p demo_session_def)
qed

lemma demo_columns_follow_r: "columns_follow_r demo_lib (\<lambda>c op. demo_column)"
  by (auto simp: columns_follow_r_def demo_lib_def entry_def)

section \<open>The claims\<close>

text \<open>
  Claim C1. The gain comes from the solution of the Riccati equation: the cell computes
  \<open>S = solve_continuous_are(A, B, Q, R)\<close> and \<open>K = dot(dot(inv(R), B.T), S)\<close>, and this
  \<open>K\<close> is \<open>R\<^sup>-\<^sup>1 B\<^sup>T S\<close>. Stated for any weighting arrays and entry by entry: when
  the solver returns \<open>S\<close> and \<open>inv\<close> returns the inverse \<open>Ri\<close> of \<open>R\<close>, the cell
  returns \<open>S\<close> together with the array \<open>K\<close> whose entry \<open>(i, j)\<close> is the sum over \<open>k\<close>
  and \<open>l\<close> of \<open>Ri[i, k] * B[l, k] * S[l, j]\<close>; this \<open>K\<close> satisfies
  \<open>R K = B\<^sup>T S\<close>, entry \<open>(i, j)\<close> of the right-hand side being the sum over \<open>l\<close> of
  \<open>B[l, i] * S[l, j]\<close>, and it is the only array of its shape that does.
\<close>

theorem gain_from_riccati_solution:
  assumes "solve_continuous_are lib Am Bm Qm Rm = Inr Sm"
    and "linalg_inv lib Rm = Inr Ri"
    and "inv_contract (linalg_inv lib) Rm"
    and "wf_array Rm" and "wf_array Bm" and "wf_array Sm"
    and "ncols Bm = nrows Rm" and "nrows Sm = nrows Bm"
  shows "\<exists>Km. cell_gain lib Am Bm Qm Rm = Inr (Sm, Km)
           \<and> wf_array Km \<and> nrows Km = ncols Bm \<and> ncols Km = ncols Sm
           \<and> (\<forall>i<ncols Bm. \<forall>j<ncols Sm.
                 entry Km i j
                   = (\<Sum>k<ncols Bm. \<Sum>l<nrows Bm. entry Ri i k * entry Bm l k * entry Sm l j))
           \<and> (\<forall>i<ncols Bm. \<forall>j<ncols Sm.
                 (\<Sum>k<ncols Bm. entry Rm i k * entry Km k j)
                   = (\<Sum>l<nrows Bm. entry Bm l i * entry Sm l j))
           \<and> (\<forall>X. wf_array X \<and> nrows X = ncols Bm \<and> ncols X = ncols Sm
                 \<and> (\<forall>i<ncols Bm. \<forall>j<ncols Sm.
                       (\<Sum>k<ncols Bm. entry Rm i k * entry X k j)
                         = (\<Sum>l<nrows Bm. entry Bm l i * entry Sm l j))
                 \<longrightarrow> X = Km)"
proof -
  let ?n = "ncols Bm"
  have wRi: "wf_array Ri" and RRi: "dot Rm Ri = Inr (eye (nrows Rm))"
    and RiR: "dot Ri Rm = Inr (eye (nrows Rm))"
    using assms(2,3) by (simp_all add: inv_contract_def)
  have shR: "nrows Rm = ?n" "ncols Rm = ?n" "nrows Ri = ?n" "ncols Ri = ?n"
    using dot_shape[OF RRi] dot_shape[OF RiR] assms(7) by simp_all
  have wT: "wf_array (T Bm)" using wf_T[OF assms(5)] .
  obtain M where M: "dot Ri (T Bm) = Inr M"
    using shR by (simp add: dot_def)
  have wM: "wf_array M" using wf_dot[OF wRi M] .
  obtain Km where Km: "dot M Sm = Inr Km"
    using dot_shape[OF M] assms(8) by (simp add: dot_def)
  have wK: "wf_array Km" using wf_dot[OF wM Km] .
  have shK: "nrows Km = ?n" "ncols Km = ncols Sm"
    using dot_shape[OF Km] dot_shape[OF M] shR by simp_all
  obtain N where N: "dot (T Bm) Sm = Inr N"
    using assms(8) by (simp add: dot_def)
  have wN: "wf_array N" using wf_dot[OF wT N] .
  have shN: "nrows N = ?n" "ncols N = ncols Sm"
    using dot_shape[OF N] by simp_all
  have eN: "entry N k j = (\<Sum>l<nrows Bm. entry Bm l k * entry Sm l j)"
    if "k < ?n" "j < ncols Sm" for k j
  proof -
    have "entry N k j = (\<Sum>l<nrows Bm. entry (T Bm) k l * entry Sm l j)"
      using entry_dot[OF N wT _ that(2)] that(1) by simp
    also have "\<dots> = (\<Sum>l<nrows Bm. entry Bm l k * entry Sm l j)"
      by (rule sum.cong) (simp_all add: entry_T[OF assms(5) that(1)])
    finally show ?thesis .
  qed
  have KN: "dot Ri N = Inr Km"
    using dot_assoc[OF wRi wT assms(6) M N] Km by simp
  have eK: "entry Km i j
              = (\<Sum>k<?n. \<Sum>l<nrows Bm. entry Ri i k * entry Bm l k * entry Sm l j)"
    if "i < ?n" "j < ncols Sm" for i j
  proof -
    have "entry Km i j = (\<Sum>k<?n. entry Ri i k * entry N k j)"
      using entry_dot[OF KN wRi _ _, of i j] that shR shN by simp
    also have "\<dots> = (\<Sum>k<?n. entry Ri i k * (\<Sum>l<nrows Bm. entry Bm l k * entry Sm l j))"
      by (rule sum.cong) (simp_all add: eN that(2))
    also have "\<dots> = (\<Sum>k<?n. \<Sum>l<nrows Bm. entry Ri i k * entry Bm l k * entry Sm l j)"
      by (simp add: sum_distrib_left mult.assoc)
    finally show ?thesis .
  qed
  have "dot (eye (nrows Rm)) N = dot Rm Km"
    using dot_assoc[OF assms(4) wRi wN RRi KN] .
  moreover have "dot (eye (nrows Rm)) N = Inr N"
    using dot_eye_left[OF wN] shN shR by simp
  ultimately have RK: "dot Rm Km = Inr N" by simp
  have eRK: "(\<Sum>k<?n. entry Rm i k * entry Km k j) = (\<Sum>l<nrows Bm. entry Bm l i * entry Sm l j)"
    if "i < ?n" "j < ncols Sm" for i j
  proof -
    have "entry N i j = (\<Sum>k<?n. entry Rm i k * entry Km k j)"
      using entry_dot[OF RK assms(4), of i j] that shR shK by simp
    then show ?thesis using eN[OF that] by simp
  qed
  have uniq: "X = Km"
    if wX: "wf_array X" and shX: "nrows X = ?n" "ncols X = ncols Sm"
      and eX: "\<And>i j. i < ?n \<Longrightarrow> j < ncols Sm \<Longrightarrow>
                 (\<Sum>k<?n. entry Rm i k * entry X k j)
                   = (\<Sum>l<nrows Bm. entry Bm l i * entry Sm l j)" for X
  proof -
    obtain P where P: "dot Rm X = Inr P"
      using shR shX by (simp add: dot_def)
    have "P = N"
    proof (rule array_eqI)
      show "wf_array P" using wf_dot[OF assms(4) P] .
      show "wf_array N" by fact
      show "nrows P = nrows N" "ncols P = ncols N"
        using dot_shape[OF P] shN shR shX by simp_all
    next
      fix i j assume "i < nrows P" "j < ncols P"
      then have ij: "i < ?n" "j < ncols Sm"
        using dot_shape[OF P] shR shX by simp_all
      have "entry P i j = (\<Sum>k<?n. entry Rm i k * entry X k j)"
        using entry_dot[OF P assms(4), of i j] ij shR shX by simp
      then show "entry P i j = entry N i j"
        using eX[OF ij] eN[OF ij] by simp
    qed
    then have RX: "dot Rm X = Inr N" using P by simp
    have "dot (eye (nrows Rm)) X = dot Ri N"
      using dot_assoc[OF wRi assms(4) wX RiR RX] .
    moreover have "dot (eye (nrows Rm)) X = Inr X"
      using dot_eye_left[OF wX] shX shR by simp
    ultimately show ?thesis using KN by simp
  qed
  have cg: "cell_gain lib Am Bm Qm Rm = Inr (Sm, Km)"
    using M Km assms(1,2) by (simp add: cell_gain_def)
  have u: "\<forall>X. wf_array X \<and> nrows X = ?n \<and> ncols X = ncols Sm
                 \<and> (\<forall>i<?n. \<forall>j<ncols Sm.
                       (\<Sum>k<?n. entry Rm i k * entry X k j)
                         = (\<Sum>l<nrows Bm. entry Bm l i * entry Sm l j))
                 \<longrightarrow> X = Km"
    using uniq by blast
  from cg wK shK eK eRK u show ?thesis by blast
qed

theorem gain_from_riccati_solution_witness:
  "solve_continuous_are gain_lib demo_A gain_B Q gain_R = Inr demo_S
   \<and> linalg_inv gain_lib gain_R = Inr gain_Ri
   \<and> inv_contract (linalg_inv gain_lib) gain_R
   \<and> wf_array gain_R \<and> wf_array gain_B \<and> wf_array demo_S
   \<and> ncols gain_B = nrows gain_R \<and> nrows demo_S = nrows gain_B
   \<and> cell_gain gain_lib demo_A gain_B Q gain_R = Inr (demo_S, gain_K)
   \<and> entry gain_K 0 5
       = (\<Sum>k<ncols gain_B. \<Sum>l<nrows gain_B.
            entry gain_Ri 0 k * entry gain_B l k * entry demo_S l 5)
   \<and> entry gain_K 0 5 = 24
   \<and> (\<Sum>k<ncols gain_B. entry gain_R 2 k * entry gain_K k 3)
       = (\<Sum>l<nrows gain_B. entry gain_B l 2 * entry demo_S l 3)"
proof -
  have h1: "solve_continuous_are gain_lib demo_A gain_B Q gain_R = Inr demo_S"
    by (simp add: gain_lib_def demo_lib_def)
  have h2: "linalg_inv gain_lib gain_R = Inr gain_Ri"
    by (simp add: gain_lib_def)
  have h3: "inv_contract (linalg_inv gain_lib) gain_R"
    unfolding inv_contract_def h2
    by (simp add: wf_array_def dot_def entry_def eye_def gain_R_def gain_Ri_def upt_rec)
  have h4: "wf_array gain_R" "wf_array gain_B" "wf_array demo_S"
    by (simp_all add: wf_array_def gain_R_def gain_B_def demo_S_def)
  have h5: "ncols gain_B = nrows gain_R" "nrows demo_S = nrows gain_B"
    by (simp_all add: gain_R_def gain_B_def demo_S_def)
  have g: "cell_gain gain_lib demo_A gain_B Q gain_R = Inr (demo_S, gain_K)"
    unfolding cell_gain_def h1 h2 and_then_Inr
    by (simp add: T_def dot_def entry_def gain_Ri_def gain_B_def demo_S_def gain_K_def upt_rec)
  obtain Km where k: "cell_gain gain_lib demo_A gain_B Q gain_R = Inr (demo_S, Km)"
      "\<forall>i<ncols gain_B. \<forall>j<ncols demo_S.
         entry Km i j
           = (\<Sum>k<ncols gain_B. \<Sum>l<nrows gain_B.
                entry gain_Ri i k * entry gain_B l k * entry demo_S l j)"
      "\<forall>i<ncols gain_B. \<forall>j<ncols demo_S.
         (\<Sum>k<ncols gain_B. entry gain_R i k * entry Km k j)
           = (\<Sum>l<nrows gain_B. entry gain_B l i * entry demo_S l j)"
    using gain_from_riccati_solution[OF h1 h2 h3 h4 h5] by blast
  have Km: "Km = gain_K" using k(1) g by simp
  have sh: "0 < ncols gain_B" "2 < ncols gain_B" "5 < ncols demo_S" "3 < ncols demo_S"
    by (simp_all add: gain_B_def demo_S_def)
  have e1: "entry gain_K 0 5
       = (\<Sum>k<ncols gain_B. \<Sum>l<nrows gain_B.
            entry gain_Ri 0 k * entry gain_B l k * entry demo_S l 5)"
    using k(2) sh(1,3) unfolding Km by blast
  have e2: "(\<Sum>k<ncols gain_B. entry gain_R 2 k * entry gain_K k 3)
       = (\<Sum>l<nrows gain_B. entry gain_B l 2 * entry demo_S l 3)"
    using k(3) sh(2,4) unfolding Km by blast
  have e3: "entry gain_K 0 5 = 24"
    by (simp add: entry_def gain_K_def)
  show ?thesis using h1 h2 h3 h4 h5 g e1 e2 e3 by blast
qed

text \<open>
  Claim C2. The matrices \<open>A\<close> and \<open>B\<close> are the linearised dynamics about an equilibrium:
  they are what \<^verbatim>\<open>linearizer.linearize\<close> returns with \<^verbatim>\<open>A_and_B=True\<close> at the operating
  point made of \<^verbatim>\<open>equilibrium_dict\<close> and \<^verbatim>\<open>parameter_dict\<close>, converted by
  \<^verbatim>\<open>matrix2numpy\<close>, and \<^verbatim>\<open>equilibrium_dict\<close> maps every generalised coordinate and
  speed, and nothing else, to zero. What \<^verbatim>\<open>linearize\<close> computes at that point is the
  library's part.
\<close>

theorem linearized_about_zero_state:
  assumes "notebook lib e = Inr s"
  shows "s_equilibrium_point s = replicate (length (coordinates e) + length (speeds e)) 0
       \<and> dom (s_equilibrium_dict s) = set (coordinates e) \<union> set (speeds e)
       \<and> (\<forall>q \<in> set (coordinates e) \<union> set (speeds e). s_equilibrium_dict s q = Some 0)
       \<and> (\<exists>As Bs. linearize lib (s_linearizer s) [s_equilibrium_dict s, parameter_dict e] True
                     = Inr (As, Bs)
                 \<and> matrix2numpy lib As = Inr (s_A s) \<and> matrix2numpy lib Bs = Inr (s_B s))"
proof -
  from assms obtain lin0 As Bs where
    lin: "linearize lib (lin0\<lparr>r := specified e\<rparr>) [equilibrium_dict e, parameter_dict e] True
            = Inr (As, Bs)"
    and num: "matrix2numpy lib As = Inr (s_A s)" "matrix2numpy lib Bs = Inr (s_B s)"
    and s: "s_equilibrium_point s = equilibrium_point e" "s_equilibrium_dict s = equilibrium_dict e"
      "s_linearizer s = lin0\<lparr>r := specified e\<rparr>"
    unfolding notebook_Inr by auto
  have "s_equilibrium_point s = replicate (length (coordinates e) + length (speeds e)) 0"
    using s(1) by (simp add: equilibrium_point_def zeros_def)
  moreover have "dom (s_equilibrium_dict s) = set (coordinates e) \<union> set (speeds e)"
    using s(2) dom_equilibrium_dict by simp
  moreover have "\<forall>q \<in> set (coordinates e) \<union> set (speeds e). s_equilibrium_dict s q = Some 0"
    using s(2) equilibrium_dict_zero[of _ e] by auto
  moreover have "\<exists>As Bs. linearize lib (s_linearizer s) [s_equilibrium_dict s, parameter_dict e] True
                     = Inr (As, Bs)
                 \<and> matrix2numpy lib As = Inr (s_A s) \<and> matrix2numpy lib Bs = Inr (s_B s)"
    using lin num s by auto
  ultimately show ?thesis by blast
qed

theorem linearized_about_zero_state_witness:
  "notebook demo_lib demo_env = Inr demo_session
   \<and> s_equilibrium_point demo_session = [0, 0, 0, 0, 0, 0]
   \<and> s_equilibrium_dict demo_session ''theta2'' = Some 0
   \<and> s_equilibrium_dict demo_session ''omega3'' = Some 0
   \<and> s_equilibrium_dict demo_session ''T_a'' = None"
proof -
  note t = linearized_about_zero_state[OF demo_run]
  have "''T_a'' \<notin> dom (s_equilibrium_dict demo_session)"
    using t by (simp add: demo_env_def)
  moreover have "s_equilibrium_dict demo_session ''theta2'' = Some 0"
    "s_equilibrium_dict demo_session ''omega3'' = Some 0"
    using t by (simp_all add: demo_env_def)
  ultimately show ?thesis
    using demo_run by (simp add: demo_session_def domIff)
qed

text \<open>
  Claim C3. The claim says that the function named \<^verbatim>\<open>controller\<close> returns the joint
  torques \<open>u(t) = -K x(t)\<close> for every state \<open>x\<close> and time \<open>t\<close>, and the docstring of
  the cell says that it returns the joint torques given the current state. The body does
  not: at the state \<open>[1, 0, 0, 0, 0, 0]\<close> and the time \<open>0\<close> the call raises
  \<^verbatim>\<open>TypeError\<close>, since the function declares no parameter, and the call without
  arguments returns \<^verbatim>\<open>None\<close>, where the law with the gain of the sample session gives
  the torques \<open>[-2, 0, 0]\<close>.
\<close>

theorem controller_at_state_and_time:
  "controller [PyArray [1, 0, 0, 0, 0, 0], PyFloat 0] = Inl TypeError
   \<and> controller [] = Inr PyNone
   \<and> lqr_law demo_K [1, 0, 0, 0, 0, 0] = [- 2, 0, 0]"
  by (simp add: controller_def lqr_law_def demo_K_def upt_rec)

text \<open>
  Claim C4. No cell catches an exception: the run ends with an exception exactly when a
  library call raised it, and it is the exception of the first call that failed, unchanged.
\<close>

theorem exceptions_propagate:
  "notebook lib e = Inl x \<longleftrightarrow>
     to_linearizer lib (kane e) = Inl x
   \<or> (\<exists>lin0. to_linearizer lib (kane e) = Inr lin0 \<and>
       (linearize lib (lin0\<lparr>r := specified e\<rparr>) [equilibrium_dict e, parameter_dict e] True
          = Inl x
      \<or> (\<exists>As Bs. linearize lib (lin0\<lparr>r := specified e\<rparr>)
                     [equilibrium_dict e, parameter_dict e] True = Inr (As, Bs) \<and>
          (matrix2numpy lib As = Inl x
         \<or> (\<exists>Am. matrix2numpy lib As = Inr Am \<and>
             (matrix2numpy lib Bs = Inl x
            \<or> (\<exists>Bm. matrix2numpy lib Bs = Inr Bm \<and>
                (controllable lib Am Bm = Inl x
               \<or> (\<exists>c. controllable lib Am Bm = Inr c \<and>
                   (solve_continuous_are lib Am Bm Q R = Inl x
                  \<or> (\<exists>Sm. solve_continuous_are lib Am Bm Q R = Inr Sm \<and>
                      (linalg_inv lib R = Inl x
                     \<or> (\<exists>Ri. linalg_inv lib R = Inr Ri \<and>
                         (dot Ri (T Bm) = Inl x
                        \<or> (\<exists>M. dot Ri (T Bm) = Inr M \<and> dot M Sm = Inl x)))))))))))))))"
  unfolding notebook_def cell_linearizer_def cell_linearize_def cell_numpy_def cell_gain_def
  apply (simp add: and_then_eq_Inl and_then_eq_Inr)
  apply blast
  done

theorem exceptions_propagate_witness:
  "linalg_inv failing_lib R = Inl LinAlgError
   \<and> notebook failing_lib demo_env = Inl LinAlgError"
proof -
  have i: "linalg_inv failing_lib R = Inl LinAlgError"
    by (simp add: failing_lib_def)
  have "notebook failing_lib demo_env = Inl LinAlgError"
    unfolding exceptions_propagate
    by (auto simp: failing_lib_def demo_lib_def)
  then show ?thesis using i by simp
qed

text \<open>
  Claim C5. Since \<open>R = eye(3)\<close>, \<open>inv(R)\<close> is defined and equals \<open>R\<close>, and the gain
  \<open>dot(dot(inv(R), B.T), S)\<close> equals \<open>dot(B.T, S)\<close>, for every array \<open>B\<close> with three
  columns and every \<open>S\<close> (also when the shapes of \<open>B.T\<close> and \<open>S\<close> do not fit: then both
  raise).
\<close>

theorem gain_identity_R:
  assumes "inv_contract (linalg_inv lib) R"
    and "solve_continuous_are lib Am Bm Q R = Inr Sm"
    and "wf_array Bm" and "ncols Bm = 3"
  shows "linalg_inv lib R = Inr R \<and>
         cell_gain lib Am Bm Q R = and_then (dot (T Bm) Sm) (\<lambda>Km. Inr (Sm, Km))"
proof -
  have i: "linalg_inv lib R = Inr R"
    using inv_eye[of "linalg_inv lib" 3] assms(1) by (simp add: R_def)
  have "dot R (T Bm) = Inr (T Bm)"
    unfolding R_def using dot_eye_left[OF wf_T[OF assms(3)], of 3] assms(4) by simp
  then show ?thesis using i assms(2) by (simp add: cell_gain_def)
qed

theorem gain_identity_R_witness:
  "inv_contract (linalg_inv demo_lib) R
   \<and> solve_continuous_are demo_lib demo_A demo_B Q R = Inr demo_S
   \<and> wf_array demo_B \<and> ncols demo_B = 3
   \<and> linalg_inv demo_lib R = Inr R
   \<and> cell_gain demo_lib demo_A demo_B Q R = and_then (dot (T demo_B) demo_S) (\<lambda>Km. Inr (demo_S, Km))
   \<and> dot (T demo_B) demo_S = Inr demo_K"
proof -
  have h1: "inv_contract (linalg_inv demo_lib) R"
    using dot_eye_left[OF wf_eye, of 3 3]
    by (simp add: inv_contract_def demo_inv_R) (simp add: R_def wf_eye)
  have h2: "solve_continuous_are demo_lib demo_A demo_B Q R = Inr demo_S"
    by (simp add: demo_lib_def)
  have h3: "wf_array demo_B" by (simp add: wf_array_def demo_B_def)
  have h4: "ncols demo_B = 3" by (simp add: demo_B_def)
  have k: "dot (T demo_B) demo_S = Inr demo_K"
    by (simp add: T_def dot_def entry_def demo_B_def demo_S_def demo_K_def upt_rec)
  show ?thesis
    using gain_identity_R[OF h1 h2 h3 h4] h1 h2 h3 h4 k by simp
qed

text \<open>
  Claim C6. The function \<^verbatim>\<open>controller\<close> of the source takes no parameter and returns
  \<^verbatim>\<open>None\<close>: the call without arguments gives \<^verbatim>\<open>None\<close>, every call gives \<^verbatim>\<open>None\<close> or
  raises, and no call gives joint torques.
\<close>

theorem controller_returns_None:
  "controller [] = Inr PyNone
   \<and> (\<forall>args. controller args = Inr PyNone \<or> controller args = Inl TypeError)
   \<and> (\<forall>args u. controller args \<noteq> Inr (PyArray u))"
  by (simp add: controller_def)

text \<open>
  Claim C7. Every numeric matrix of a run is the value of one library call or array
  algebra over such values: \<open>A\<close> and \<open>B\<close> are \<^verbatim>\<open>matrix2numpy\<close> of the two results of
  \<^verbatim>\<open>linearize\<close>, \<open>S\<close> is the value of \<^verbatim>\<open>solve_continuous_are\<close> at \<open>A\<close>, \<open>B\<close>, \<open>eye(6)\<close>
  and \<open>eye(3)\<close>, and \<open>K\<close> is \<^verbatim>\<open>dot\<close> of \<^verbatim>\<open>dot\<close> of \<^verbatim>\<open>inv(R)\<close> and \<open>B.T\<close> with \<open>S\<close>.
\<close>

theorem matrices_from_library_calls:
  assumes "notebook lib e = Inr s"
  shows "\<exists>As Bs Ri M.
           linearize lib (s_linearizer s) [equilibrium_dict e, parameter_dict e] True = Inr (As, Bs)
         \<and> matrix2numpy lib As = Inr (s_A s)
         \<and> matrix2numpy lib Bs = Inr (s_B s)
         \<and> solve_continuous_are lib (s_A s) (s_B s) (eye 6) (eye 3) = Inr (s_S s)
         \<and> linalg_inv lib (eye 3) = Inr Ri
         \<and> dot Ri (T (s_B s)) = Inr M
         \<and> dot M (s_S s) = Inr (s_K s)"
  using assms unfolding notebook_Inr Q_def R_def by auto

theorem matrices_from_library_calls_witness:
  "notebook demo_lib demo_env = Inr demo_session
   \<and> solve_continuous_are demo_lib (s_A demo_session) (s_B demo_session) (eye 6) (eye 3)
       = Inr (s_S demo_session)
   \<and> and_then (linalg_inv demo_lib (eye 3))
       (\<lambda>Ri. and_then (dot Ri (T (s_B demo_session))) (\<lambda>M. dot M (s_S demo_session)))
       = Inr (s_K demo_session)"
  using matrices_from_library_calls[OF demo_run] demo_run by auto

text \<open>
  Claim C10. The assignment \<^verbatim>\<open>linearizer.r = Matrix(specified)\<close> changes the attribute
  \<^verbatim>\<open>r\<close> of the linearizer and nothing else, so that, the library ordering the columns
  of \<open>B\<close> by \<^verbatim>\<open>r\<close>, column \<open>j\<close> of the \<open>B\<close> of the run belongs to the \<open>j\<close>-th entry of
  \<^verbatim>\<open>specified\<close>, whatever order \<^verbatim>\<open>to_linearizer\<close> had chosen.
\<close>

theorem inputs_in_specified_order:
  assumes "notebook lib e = Inr s" and "columns_follow_r lib col"
  shows "\<exists>lin0. to_linearizer lib (kane e) = Inr lin0
         \<and> s_linearizer s = lin0\<lparr>r := specified e\<rparr>
         \<and> core (s_linearizer s) = core lin0
         \<and> r (s_linearizer s) = specified e
         \<and> ncols (s_B s) = length (specified e)
         \<and> (\<forall>j<length (specified e). \<forall>i<nrows (s_B s).
               entry (s_B s) i j
                 = col (core lin0) [equilibrium_dict e, parameter_dict e] (specified e ! j) ! i)"
proof -
  from assms(1) obtain lin0 As Bs where
    l0: "to_linearizer lib (kane e) = Inr lin0"
    and lin: "linearize lib (lin0\<lparr>r := specified e\<rparr>) [equilibrium_dict e, parameter_dict e] True
            = Inr (As, Bs)"
    and num: "matrix2numpy lib Bs = Inr (s_B s)"
    and s: "s_linearizer s = lin0\<lparr>r := specified e\<rparr>"
    unfolding notebook_Inr by auto
  have "ncols (s_B s) = length (specified e) \<and>
        (\<forall>j<length (specified e). \<forall>i<nrows (s_B s).
               entry (s_B s) i j
                 = col (core lin0) [equilibrium_dict e, parameter_dict e] (specified e ! j) ! i)"
    using assms(2) lin num unfolding columns_follow_r_def by fastforce
  then show ?thesis using l0 s by simp
qed

theorem inputs_in_specified_order_witness:
  "notebook demo_lib demo_env = Inr demo_session
   \<and> columns_follow_r demo_lib (\<lambda>c op. demo_column)
   \<and> to_linearizer demo_lib (kane demo_env) = Inr \<lparr>r = [''T_a'', ''T_h'', ''T_k''], core = ()\<rparr>
   \<and> r (s_linearizer demo_session) = [''T_a'', ''T_k'', ''T_h'']
   \<and> entry (s_B demo_session) 4 1 = demo_column ''T_k'' ! 4"
proof -
  obtain lin0 where t: "to_linearizer demo_lib (kane demo_env) = Inr lin0"
      "r (s_linearizer demo_session) = specified demo_env"
      "\<forall>j<length (specified demo_env). \<forall>i<nrows (s_B demo_session).
          entry (s_B demo_session) i j = demo_column (specified demo_env ! j) ! i"
    using inputs_in_specified_order[OF demo_run demo_columns_follow_r] by blast
  have "entry (s_B demo_session) 4 1 = demo_column (specified demo_env ! 1) ! 4"
    using t(3) by (simp add: demo_env_def demo_session_def demo_B_def)
  then show ?thesis
    using t(1,2) demo_run demo_columns_follow_r by (simp add: demo_env_def demo_lib_def)
qed

end
